theory Spec2Isabelle
  imports Main
begin

section \<open>Data model\<close>

text \<open>
  Instants are integers counting microseconds since the epoch, the resolution of Python's
  \<^verbatim>\<open>datetime\<close>. Time zones are not modelled: an instant is an instant, whether the
  source holds it as an aware UTC value (\<^verbatim>\<open>datetime.now(pytz.UTC)\<close>) or as a naive local
  one (\<^verbatim>\<open>datetime.now()\<close>).
\<close>

type_synonym time = int

text \<open>
  The quoted price is an opaque payload of the outgoing message. The source holds it as a float
  and prints it with three decimals; neither the float nor its formatting is modelled.
\<close>

type_synonym price = int

text \<open>
  Python's \<^verbatim>\<open>str\<close> is a sequence of Unicode code points. The texts of the program (symbols,
  schedules, incoming messages) are lists over a type \<open>'c\<close> of characters, which stands for the
  code points; the fixtures below take \<open>char\<close> for it.
\<close>

text \<open>
  One row of the table \<^verbatim>\<open>reminders\<close> created by \<^verbatim>\<open>init_db\<close>:
  \<^verbatim>\<open>symbol TEXT PRIMARY KEY, chat_id INTEGER NOT NULL, cron_expr TEXT NOT NULL,
  last_run TIMESTAMP, created_at TIMESTAMP DEFAULT CURRENT_TIMESTAMP\<close>.
  The table is the list of its rows in rowid order.
\<close>

record 'c reminder =
  symbol :: "'c list"
  chat_id :: int
  cron_expr :: "'c list"
  last_run :: "time option"
  created_at :: time

text \<open>The texts the bot sends, one constructor per f-string of the source.\<close>

datatype 'c message_text =
    PriceAlert "'c list" price
  | PriceError "'c list"
  | ReminderSet "'c list" "'c list"
  | PriceTest "'c list" price
  | PriceWarning "'c list"
  | UsageError string
  | ErrorOccurred

datatype exn = CroniterError | TelegramError | ValueError string

datatype outcome = Returned | Raised

text \<open>The calls that leave the process or write the store, in the order they are made.\<close>

datatype 'c event =
    GetPrice "'c list"
  | SendMessage int "'c message_text" outcome
  | ReplyTo int "'c message_text" outcome
  | UpdateLastRun "'c list" time
  | ReplaceInto "'c list" int "'c list"
  | Print "'c list" exn
  | Sleep nat

text \<open>
  The state the program changes: the table, the calls made so far, and how many times the
  system clock has been read.
\<close>

record 'c world =
  db :: "'c reminder list"
  trace :: "'c event list"
  reads :: nat

text \<open>
  What \<^verbatim>\<open>croniter(cron_expr, now)\<close> gives: an iterator whose \<^verbatim>\<open>get_prev\<close> and
  \<^verbatim>\<open>get_next\<close> return an instant or raise (\<open>None\<close>).
\<close>

record croniter_obj =
  get_prev :: "time option"
  get_next :: "time option"

text \<open>
  The body of the HTTP answer of the price service, as far as \<^verbatim>\<open>get_crypto_price\<close> reads it:
  \<open>error_code\<close> is \<^verbatim>\<open>data['status']['error_code']\<close> and \<open>quote_price\<close> is
  \<^verbatim>\<open>float(data['data'][symbol]['quote']['USD']['price'])\<close>, \<open>None\<close> where the lookup or
  the conversion raises.
\<close>

record response =
  status_code :: int
  error_code :: "int option"
  quote_price :: "price option"

text \<open>
  The collaborators outside the repository, as parameters: the croniter library (constructor and
  \<^verbatim>\<open>croniter.is_valid\<close>; \<open>None\<close> is a raised exception), the price service behind
  \<^verbatim>\<open>requests.get\<close> (\<open>None\<close> when the request or the JSON decoding raises), the Telegram client
  (whether a call to a chat with a text raises), the system clock as the sequence of its
  readings, and the two tables of the Unicode database that \<^verbatim>\<open>str.split\<close> and
  \<^verbatim>\<open>str.upper\<close> consult: which code points are whitespace, and the upper-case mapping of each
  code point, which may be several code points long.
\<close>

record 'c env =
  croniter :: "'c list \<Rightarrow> time \<Rightarrow> croniter_obj option"
  is_valid :: "'c list \<Rightarrow> bool"
  requests_get :: "'c list \<Rightarrow> response option"
  telegram_raises :: "int \<Rightarrow> 'c message_text \<Rightarrow> bool"
  clock :: "nat \<Rightarrow> time"
  unicode_isspace :: "'c \<Rightarrow> bool"
  unicode_toupper :: "'c \<Rightarrow> 'c list"

text \<open>An incoming chat message: \<^verbatim>\<open>message.chat.id\<close> and \<^verbatim>\<open>message.text\<close>.\<close>

record 'c message =
  msg_chat_id :: int
  msg_text :: "'c list"

section \<open>Store operations\<close>

text \<open>
  \<^verbatim>\<open>init_db\<close>: \<^verbatim>\<open>DROP TABLE IF EXISTS reminders\<close>, then
  \<^verbatim>\<open>CREATE TABLE IF NOT EXISTS reminders (...)\<close>: whatever the table held, it is recreated empty.
\<close>

definition init_db :: "'c world \<Rightarrow> 'c world" where
  "init_db w = w\<lparr>db := []\<rparr>"

text \<open>\<^verbatim>\<open>SELECT symbol, chat_id, cron_expr, last_run FROM reminders\<close>.\<close>

definition get_all_reminders :: "'c world \<Rightarrow> ('c list \<times> int \<times> 'c list \<times> time option) list" where
  "get_all_reminders w = map (\<lambda>r. (symbol r, chat_id r, cron_expr r, last_run r)) (db w)"

text \<open>
  \<^verbatim>\<open>UPDATE reminders SET last_run = ? WHERE symbol = ?\<close> with a fresh reading
  \<^verbatim>\<open>datetime.now()\<close> of the clock.
\<close>

definition set_last_run :: "'c list \<Rightarrow> time \<Rightarrow> 'c reminder list \<Rightarrow> 'c reminder list" where
  "set_last_run sy t rows = map (\<lambda>r. if symbol r = sy then r\<lparr>last_run := Some t\<rparr> else r) rows"

definition update_reminder_last_run :: "'c env \<Rightarrow> 'c list \<Rightarrow> 'c world \<Rightarrow> 'c world" where
  "update_reminder_last_run e sy w =
     (let t = clock e (reads w)
      in w\<lparr>db := set_last_run sy t (db w),
           trace := trace w @ [UpdateLastRun sy t],
           reads := Suc (reads w)\<rparr>)"

text \<open>SQLite's \<^verbatim>\<open>CURRENT_TIMESTAMP\<close> has a resolution of one second.\<close>

definition current_timestamp :: "time \<Rightarrow> time" where
  "current_timestamp t = t - t mod 1000000"

text \<open>
  \<^verbatim>\<open>REPLACE INTO reminders (symbol, chat_id, cron_expr) VALUES (?, ?, ?)\<close>: the row that
  holds the primary key is deleted and a new row is inserted, its unnamed columns taking their
  defaults (\<^verbatim>\<open>last_run\<close> NULL, \<^verbatim>\<open>created_at\<close> the current timestamp).
\<close>

definition replace_into :: "'c env \<Rightarrow> 'c list \<Rightarrow> int \<Rightarrow> 'c list \<Rightarrow> 'c world \<Rightarrow> 'c world" where
  "replace_into e sy chat expr w =
     w\<lparr>db := filter (\<lambda>r. symbol r \<noteq> sy) (db w) @
              [\<lparr>symbol = sy, chat_id = chat, cron_expr = expr, last_run = None,
                created_at = current_timestamp (clock e (reads w))\<rparr>],
       trace := trace w @ [ReplaceInto sy chat expr],
       reads := Suc (reads w)\<rparr>"

section \<open>Price source and notifier\<close>

text \<open>
  \<^verbatim>\<open>get_crypto_price\<close>: the price when the status is 200 and the error code 0; every other
  path, the \<^verbatim>\<open>except Exception\<close> included, returns \<^verbatim>\<open>None\<close>.
\<close>

definition get_crypto_price :: "'c env \<Rightarrow> 'c list \<Rightarrow> price option" where
  "get_crypto_price e sy =
     (case requests_get e sy of
        None \<Rightarrow> None
      | Some r \<Rightarrow> if status_code r = 200 \<and> error_code r = Some 0 then quote_price r else None)"

definition call_outcome :: "'c env \<Rightarrow> int \<Rightarrow> 'c message_text \<Rightarrow> outcome" where
  "call_outcome e chat txt = (if telegram_raises e chat txt then Raised else Returned)"

text \<open>\<^verbatim>\<open>bot.send_message(chat_id, text)\<close> and \<^verbatim>\<open>bot.reply_to(message, text)\<close>.\<close>

definition send_message :: "'c env \<Rightarrow> int \<Rightarrow> 'c message_text \<Rightarrow> 'c world \<Rightarrow> (exn + unit) \<times> 'c world" where
  "send_message e chat txt w =
     (if telegram_raises e chat txt
      then (Inl TelegramError, w\<lparr>trace := trace w @ [SendMessage chat txt Raised]\<rparr>)
      else (Inr (), w\<lparr>trace := trace w @ [SendMessage chat txt Returned]\<rparr>))"

definition reply_to :: "'c env \<Rightarrow> 'c message \<Rightarrow> 'c message_text \<Rightarrow> 'c world \<Rightarrow> (exn + unit) \<times> 'c world" where
  "reply_to e m txt w =
     (if telegram_raises e (msg_chat_id m) txt
      then (Inl TelegramError, w\<lparr>trace := trace w @ [ReplyTo (msg_chat_id m) txt Raised]\<rparr>)
      else (Inr (), w\<lparr>trace := trace w @ [ReplyTo (msg_chat_id m) txt Returned]\<rparr>))"

text \<open>\<^verbatim>\<open>send_price_reminder\<close>: fetch the price, then send the alert or the error text.\<close>

definition price_text :: "'c env \<Rightarrow> 'c list \<Rightarrow> 'c message_text" where
  "price_text e sy =
     (case get_crypto_price e sy of Some p \<Rightarrow> PriceAlert sy p | None \<Rightarrow> PriceError sy)"

definition send_price_reminder :: "'c env \<Rightarrow> int \<Rightarrow> 'c list \<Rightarrow> 'c world \<Rightarrow> (exn + unit) \<times> 'c world" where
  "send_price_reminder e chat sy w =
     (let w1 = w\<lparr>trace := trace w @ [GetPrice sy]\<rparr>
      in case get_crypto_price e sy of
           Some p \<Rightarrow> send_message e chat (PriceAlert sy p) w1
         | None \<Rightarrow> send_message e chat (PriceError sy) w1)"

section \<open>The reminder checker\<close>

text \<open>
  The condition of line 103,
  \<^verbatim>\<open>last_run is None or (now - next_run).total_seconds() > -60\<close>, in microseconds.
\<close>

definition due :: "time \<Rightarrow> time option \<Rightarrow> time \<Rightarrow> bool" where
  "due now lr next_run = (lr = None \<or> now - next_run > - 60000000)"

text \<open>
  Line 101: \<^verbatim>\<open>cron.get_prev(datetime) if last_run else cron.get_next(datetime)\<close>. A stored
  \<^verbatim>\<open>last_run\<close> is read back as a non-empty string, which is true.
\<close>

definition next_run_of :: "croniter_obj \<Rightarrow> time option \<Rightarrow> time option" where
  "next_run_of c lr = (if lr \<noteq> None then get_prev c else get_next c)"

text \<open>The \<^verbatim>\<open>try\<close> block of the loop over the reminders (lines 100 to 105).\<close>

definition process_reminder_try ::
    "'c env \<Rightarrow> time \<Rightarrow> 'c list \<times> int \<times> 'c list \<times> time option \<Rightarrow> 'c world \<Rightarrow> (exn + unit) \<times> 'c world" where
  "process_reminder_try e now row w =
     (case row of (sy, chat, expr, lr) \<Rightarrow>
        (case croniter e expr now of
           None \<Rightarrow> (Inl CroniterError, w)
         | Some c \<Rightarrow>
             (case next_run_of c lr of
                None \<Rightarrow> (Inl CroniterError, w)
              | Some next_run \<Rightarrow>
                  if due now lr next_run
                  then (case send_price_reminder e chat sy w of
                          (Inl x, w') \<Rightarrow> (Inl x, w')
                        | (Inr u, w') \<Rightarrow> (Inr (), update_reminder_last_run e sy w'))
                  else (Inr (), w))))"

text \<open>The \<^verbatim>\<open>try\<close> block with its \<^verbatim>\<open>except Exception\<close>, which prints and goes on.\<close>

definition process_reminder ::
    "'c env \<Rightarrow> time \<Rightarrow> 'c list \<times> int \<times> 'c list \<times> time option \<Rightarrow> 'c world \<Rightarrow> 'c world" where
  "process_reminder e now row w =
     (case process_reminder_try e now row w of
        (Inl x, w') \<Rightarrow> w'\<lparr>trace := trace w' @ [Print (fst row) x]\<rparr>
      | (Inr u, w') \<Rightarrow> w')"

text \<open>The \<^verbatim>\<open>for\<close> loop over the rows read at the start of the cycle.\<close>

fun process_reminders ::
    "'c env \<Rightarrow> time \<Rightarrow> ('c list \<times> int \<times> 'c list \<times> time option) list \<Rightarrow> 'c world \<Rightarrow> 'c world" where
  "process_reminders e now [] w = w"
| "process_reminders e now (row # rows) w = process_reminders e now rows (process_reminder e now row w)"

text \<open>
  One pass of the body of \<^verbatim>\<open>while True\<close> in \<^verbatim>\<open>check_reminders\<close> (lines 95 to 109): read the
  clock, read the table, process each row, sleep.
\<close>

definition check_reminders_cycle :: "'c env \<Rightarrow> 'c world \<Rightarrow> 'c world" where
  "check_reminders_cycle e w =
     (let now = clock e (reads w);
          w0 = w\<lparr>reads := Suc (reads w)\<rparr>;
          w1 = process_reminders e now (get_all_reminders w0) w0
      in w1\<lparr>trace := trace w1 @ [Sleep 60]\<rparr>)"

text \<open>
  \<^verbatim>\<open>check_reminders\<close> takes no argument and is \<^verbatim>\<open>while True\<close> around the cycle, with no
  \<^verbatim>\<open>break\<close> and no \<^verbatim>\<open>return\<close>. \<open>None\<close> is the call that does not return.
\<close>

partial_function (option) check_reminders :: "'c env \<Rightarrow> 'c world \<Rightarrow> 'c world option" where
  "check_reminders e w = check_reminders e (check_reminders_cycle e w)"

section \<open>Registration\<close>

text \<open>
  \<^verbatim>\<open>s.upper()\<close>: every code point is replaced by its upper-case mapping.
\<close>

definition upper :: "'c env \<Rightarrow> 'c list \<Rightarrow> 'c list" where
  "upper e s = concat (map (unicode_toupper e) s)"

text \<open>
  \<^verbatim>\<open>s.split(None, maxsplit)\<close>: words separated by runs of whitespace; once \<open>maxsplit\<close> words
  are taken, the rest of the string without its leading whitespace is the last element.
\<close>

fun split_whitespace :: "'c env \<Rightarrow> nat \<Rightarrow> 'c list \<Rightarrow> 'c list list" where
  "split_whitespace e 0 s =
     (let s' = dropWhile (unicode_isspace e) s in if s' = [] then [] else [s'])"
| "split_whitespace e (Suc n) s =
     (let s' = dropWhile (unicode_isspace e) s
      in if s' = [] then []
         else takeWhile (\<lambda>c. \<not> unicode_isspace e c) s' #
              split_whitespace e n (dropWhile (\<lambda>c. \<not> unicode_isspace e c) s'))"

text \<open>The \<^verbatim>\<open>try\<close> block of \<^verbatim>\<open>set_reminder\<close> (lines 152 to 188).\<close>

definition set_reminder_try :: "'c env \<Rightarrow> 'c message \<Rightarrow> 'c world \<Rightarrow> (exn + unit) \<times> 'c world" where
  "set_reminder_try e m w =
     (let args = split_whitespace e 2 (msg_text m)
      in if length args \<noteq> 3 then (Inl (ValueError ''Invalid number of arguments''), w)
         else
           let sy = upper e (args ! 1); expr = args ! 2
           in if \<not> is_valid e expr then (Inl (ValueError ''Invalid cron expression''), w)
              else
                let w1 = replace_into e sy (msg_chat_id m) expr w
                in case reply_to e m (ReminderSet sy expr) w1 of
                     (Inl x, w2) \<Rightarrow> (Inl x, w2)
                   | (Inr u, w2) \<Rightarrow>
                       (let w3 = w2\<lparr>trace := trace w2 @ [GetPrice sy]\<rparr>
                        in case get_crypto_price e sy of
                             Some p \<Rightarrow> reply_to e m (PriceTest sy p) w3
                           | None \<Rightarrow> reply_to e m (PriceWarning sy) w3))"

text \<open>
  \<^verbatim>\<open>set_reminder\<close>: the block with its two handlers, \<^verbatim>\<open>except ValueError\<close> and
  \<^verbatim>\<open>except Exception\<close>. An exception raised by the reply inside a handler leaves the function.
\<close>

definition set_reminder :: "'c env \<Rightarrow> 'c message \<Rightarrow> 'c world \<Rightarrow> (exn + unit) \<times> 'c world" where
  "set_reminder e m w =
     (case set_reminder_try e m w of
        (Inl (ValueError reason), w') \<Rightarrow> reply_to e m (UsageError reason) w'
      | (Inl x, w') \<Rightarrow> reply_to e m ErrorOccurred w'
      | (Inr u, w') \<Rightarrow> (Inr (), w'))"

section \<open>Test fixtures\<close>

text \<open>
  A stand-in for the croniter library on the schedules the repository's tests and help texts
  use. Each of them fires at the multiples of a fixed period counted from the epoch in UTC;
  \<open>get_prev\<close> is the last such instant strictly before the start instant and \<open>get_next\<close> the
  first one strictly after it. Every other expression is rejected.
\<close>

definition cron_period :: "string \<Rightarrow> int option" where
  "cron_period expr =
     (if expr = ''* * * * *'' then Some 60000000
      else if expr = ''*/5 * * * *'' then Some 300000000
      else if expr = ''*/30 * * * *'' then Some 1800000000
      else if expr = ''0 */2 * * *'' then Some 7200000000
      else None)"

definition table_croniter :: "string \<Rightarrow> time \<Rightarrow> croniter_obj option" where
  "table_croniter expr now =
     (case cron_period expr of
        None \<Rightarrow> None
      | Some p \<Rightarrow> Some \<lparr>get_prev = Some ((now - 1) div p * p), get_next = Some ((now div p + 1) * p)\<rparr>)"

text \<open>
  The two Unicode tables on the code points below 256, which \<open>char\<close> stands for here. The
  upper-case mappings of the code points 181 and 255 lie beyond 255; the stand-in leaves these
  two as they are.
\<close>

definition latin1_isspace :: "char \<Rightarrow> bool" where
  "latin1_isspace c =
     (let n = (of_char c :: nat)
      in (9 \<le> n \<and> n \<le> 13) \<or> (28 \<le> n \<and> n \<le> 32) \<or> n = 133 \<or> n = 160)"

definition latin1_toupper :: "char \<Rightarrow> string" where
  "latin1_toupper c =
     (let n = (of_char c :: nat)
      in if 97 \<le> n \<and> n \<le> 122 then [char_of (n - 32)]
         else if n = 223 then ''SS''
         else if 224 \<le> n \<and> n \<le> 254 \<and> n \<noteq> 247 then [char_of (n - 32)]
         else [c])"

text \<open>
  The fixtures of \<^verbatim>\<open>test_main.py\<close>: a price service with one fixed answer, a Telegram client
  that always or never raises, and a clock.
\<close>

definition test_env :: "response option \<Rightarrow> bool \<Rightarrow> (nat \<Rightarrow> time) \<Rightarrow> char env" where
  "test_env answer raises clk =
     \<lparr>croniter = table_croniter,
      is_valid = (\<lambda>expr. cron_period expr \<noteq> None),
      requests_get = (\<lambda>_. answer),
      telegram_raises = (\<lambda>_ _. raises),
      clock = clk,
      unicode_isspace = latin1_isspace,
      unicode_toupper = latin1_toupper\<rparr>"

definition price_ok :: "response option" where
  "price_ok = Some \<lparr>status_code = 200, error_code = Some 0, quote_price = Some 50000\<rparr>"

definition price_down :: "response option" where
  "price_down = Some \<lparr>status_code = 400, error_code = Some 0, quote_price = Some 50000\<rparr>"

text \<open>\<^verbatim>\<open>datetime(2025, 2, 23, 10, 0, tzinfo=pytz.UTC)\<close>, the instant the test freezes the clock at.\<close>

definition test_time :: time where
  "test_time = 1740304800000000"

definition minutes :: "int \<Rightarrow> time" where
  "minutes n = n * 60000000"

definition btc_row :: "time option \<Rightarrow> char reminder" where
  "btc_row lr =
     \<lparr>symbol = ''BTC'', chat_id = 123456789, cron_expr = ''*/5 * * * *'', last_run = lr,
      created_at = test_time\<rparr>"

text \<open>A row whose schedule the library rejects.\<close>

definition eth_row :: "char reminder" where
  "eth_row =
     \<lparr>symbol = ''ETH'', chat_id = 42, cron_expr = ''every now and then'', last_run = None,
      created_at = test_time\<rparr>"

text \<open>A clock that advances by one minute at each reading.\<close>

definition ticking :: "nat \<Rightarrow> time" where
  "ticking k = test_time + minutes (int k)"

text \<open>A row for BTC registered earlier by another chat, already fired.\<close>

definition eth_owned_btc_row :: "char reminder" where
  "eth_owned_btc_row =
     \<lparr>symbol = ''BTC'', chat_id = 42, cron_expr = ''0 */2 * * *'', last_run = Some test_time,
      created_at = test_time - minutes 90\<rparr>"

text \<open>Incoming commands: a well-formed one, one without schedule, one with a schedule the
  library rejects.\<close>

definition setreminder_btc :: "char message" where
  "setreminder_btc = \<lparr>msg_chat_id = 123456789, msg_text = ''/setreminder btc */30 * * * *''\<rparr>"



text \<open>
  The library on \<^verbatim>\<open>0 0 31 2 *\<close>: \<^verbatim>\<open>croniter.is_valid\<close> accepts the expression and the
  constructor returns, but no date is the 31st of February, so \<^verbatim>\<open>get_prev\<close> and
  \<^verbatim>\<open>get_next\<close> raise.
\<close>

definition feb31_croniter :: "string \<Rightarrow> time \<Rightarrow> croniter_obj option" where
  "feb31_croniter expr now =
     (if expr = ''0 0 31 2 *'' then Some \<lparr>get_prev = None, get_next = None\<rparr>
      else table_croniter expr now)"

definition feb31_env :: "char env" where
  "feb31_env =
     (test_env price_ok False ticking)
       \<lparr>croniter := feb31_croniter,
        is_valid := (\<lambda>expr. if expr = ''0 0 31 2 *'' then True else cron_period expr \<noteq> None)\<rparr>"

definition setreminder_feb31 :: "char message" where
  "setreminder_feb31 = \<lparr>msg_chat_id = 123456789, msg_text = ''/setreminder btc 0 0 31 2 *''\<rparr>"

text \<open>The calls made during one cycle started in \<open>w\<close>.\<close>

definition cycle_events :: "'c env \<Rightarrow> 'c world \<Rightarrow> 'c event list" where
  "cycle_events e w = drop (length (trace w)) (trace (check_reminders_cycle e w))"

text \<open>A world with the given table, no call made yet and the clock not yet read.\<close>

definition fresh_world :: "'c reminder list \<Rightarrow> 'c world" where
  "fresh_world rows = \<lparr>db = rows, trace = [], reads = 0\<rparr>"

text \<open>\<open>a\<close> occurs in the list before the first occurrence of \<open>b\<close>.\<close>

definition precedes :: "'c event \<Rightarrow> 'c event \<Rightarrow> 'c event list \<Rightarrow> bool" where
  "precedes a b evs = (a \<in> set (takeWhile (\<lambda>x. x \<noteq> b) evs) \<and> b \<in> set evs)"

section \<open>Store initialisation\<close>

text \<open>
  C10. Whatever the table held before, after \<^verbatim>\<open>init_db\<close> it holds no row, and reading all
  reminders gives the empty list.
\<close>

theorem init_db_empties_store:
  "db (init_db w) = [] \<and> get_all_reminders (init_db w) = []"
  by (simp add: init_db_def get_all_reminders_def)

section \<open>One reminder, one cycle\<close>

lemma send_price_reminder_eq:
  "send_price_reminder e chat sy w =
     (if telegram_raises e chat (price_text e sy)
      then (Inl TelegramError,
            w\<lparr>trace := trace w @ [GetPrice sy, SendMessage chat (price_text e sy) Raised]\<rparr>)
      else (Inr (),
            w\<lparr>trace := trace w @ [GetPrice sy, SendMessage chat (price_text e sy) Returned]\<rparr>))"
  by (simp add: send_price_reminder_def send_message_def price_text_def split: option.split)

lemma process_reminder_due:
  assumes "croniter e expr now = Some c" and "next_run_of c lr = Some n" and "due now lr n"
  shows "process_reminder e now (sy, chat, expr, lr) w =
     (if telegram_raises e chat (price_text e sy)
      then w\<lparr>trace := trace w @
                [GetPrice sy, SendMessage chat (price_text e sy) Raised, Print sy TelegramError]\<rparr>
      else w\<lparr>db := set_last_run sy (clock e (reads w)) (db w),
             trace := trace w @
                [GetPrice sy, SendMessage chat (price_text e sy) Returned,
                 UpdateLastRun sy (clock e (reads w))],
             reads := Suc (reads w)\<rparr>)"
  using assms
  by (simp add: process_reminder_def process_reminder_try_def send_price_reminder_eq
      update_reminder_last_run_def Let_def)

lemma process_reminder_not_due:
  assumes "croniter e expr now = Some c" and "next_run_of c lr = Some n" and "\<not> due now lr n"
  shows "process_reminder e now (sy, chat, expr, lr) w = w"
  using assms by (simp add: process_reminder_def process_reminder_try_def)

lemma process_reminder_raises:
  assumes "croniter e expr now = None \<or> (\<exists>c. croniter e expr now = Some c \<and> next_run_of c lr = None)"
  shows "process_reminder e now (sy, chat, expr, lr) w = w\<lparr>trace := trace w @ [Print sy CroniterError]\<rparr>"
  using assms by (auto simp add: process_reminder_def process_reminder_try_def)

lemma process_reminder_trace:
  "\<exists>ev. trace (process_reminder e now row w) = trace w @ ev"
proof -
  obtain sy chat expr lr where row: "row = (sy, chat, expr, lr)"
    by (cases row) auto
  show ?thesis
  proof (cases "croniter e expr now")
    case None
    then show ?thesis by (simp add: row process_reminder_raises)
  next
    case (Some c)
    show ?thesis
    proof (cases "next_run_of c lr")
      case None
      with Some show ?thesis by (simp add: row process_reminder_raises)
    next
      case (Some n)
      with \<open>croniter e expr now = Some c\<close> show ?thesis
        by (cases "due now lr n") (simp_all add: row process_reminder_due process_reminder_not_due)
    qed
  qed
qed

lemma process_reminders_trace:
  "\<exists>ev. trace (process_reminders e now rows w) = trace w @ ev"
proof (induction rows arbitrary: w)
  case Nil
  then show ?case by simp
next
  case (Cons row rows)
  obtain ev1 where "trace (process_reminder e now row w) = trace w @ ev1"
    using process_reminder_trace by blast
  moreover obtain ev2 where
    "trace (process_reminders e now rows (process_reminder e now row w)) =
       trace (process_reminder e now row w) @ ev2"
    using Cons.IH by blast
  ultimately show ?case by simp
qed

lemma process_reminders_append:
  "process_reminders e now (xs @ ys) w = process_reminders e now ys (process_reminders e now xs w)"
  by (induction xs arbitrary: w) simp_all

lemma cycle_events_member:
  assumes row: "row \<in> set (get_all_reminders w)"
  shows "\<exists>w1 ev1 ev2. trace w1 = trace w @ ev1 \<and>
      cycle_events e w =
        ev1 @ drop (length (trace w1)) (trace (process_reminder e (clock e (reads w)) row w1)) @ ev2"
proof -
  let ?now = "clock e (reads w)"
  let ?v = "w\<lparr>reads := Suc (reads w)\<rparr>"
  from row have "row \<in> set (get_all_reminders ?v)"
    by (simp add: get_all_reminders_def)
  then obtain xs ys where split: "get_all_reminders ?v = xs @ row # ys"
    by (auto dest: split_list)
  let ?w1 = "process_reminders e ?now xs ?v"
  let ?w2 = "process_reminder e ?now row ?w1"
  obtain ev1 where ev1: "trace ?w1 = trace w @ ev1"
    using process_reminders_trace [of e ?now xs ?v] by auto
  obtain ev where ev: "trace ?w2 = trace ?w1 @ ev"
    using process_reminder_trace by blast
  obtain ev3 where ev3: "trace (process_reminders e ?now ys ?w2) = trace ?w2 @ ev3"
    using process_reminders_trace by blast
  have "cycle_events e w = ev1 @ ev @ ev3 @ [Sleep 60]"
    by (simp add: cycle_events_def check_reminders_cycle_def Let_def split
        process_reminders_append ev1 ev ev3)
  moreover have "drop (length (trace ?w1)) (trace ?w2) = ev"
    by (simp add: ev)
  ultimately show ?thesis using ev1 by blast
qed

lemma cycle_events_due:
  assumes row: "(sy, chat, expr, lr) \<in> set (get_all_reminders w)"
    and c: "croniter e expr (clock e (reads w)) = Some c"
    and n: "next_run_of c lr = Some n"
    and d: "due (clock e (reads w)) lr n"
  shows "\<exists>ev1 ev2 ev3. cycle_events e w =
      ev1 @ [GetPrice sy, SendMessage chat (price_text e sy) (call_outcome e chat (price_text e sy))]
        @ ev2 # ev3"
proof -
  obtain w1 ev1 ev2 where
    "cycle_events e w =
       ev1 @ drop (length (trace w1)) (trace (process_reminder e (clock e (reads w)) (sy, chat, expr, lr) w1)) @ ev2"
    using cycle_events_member [OF row] by blast
  then show ?thesis
    by (simp add: process_reminder_due [OF c n d] call_outcome_def) blast
qed

section \<open>The loop of the checker\<close>

text \<open>
  C6. The claim asks for a mode of the checker that performs one cycle and returns, and the test
  calls \<^verbatim>\<open>check_reminders(single_check=True)\<close>. The function of the source takes no argument
  and loops without exit: from every state and with every collaborator, the call does not
  return.
\<close>

theorem check_reminders_never_returns:
  "check_reminders e w = None"
proof (cases "check_reminders e w")
  case None
  then show ?thesis .
next
  case (Some w')
  have step: "False"
    if "\<And>e1 w1 y. f e1 w1 = Some y \<Longrightarrow> False"
      and "f e0 (check_reminders_cycle e0 w0) = Some y0"
    for f :: "'c env \<Rightarrow> 'c world \<Rightarrow> 'c world option" and e0 w0 y0
    using that by blast
  from Some have False
    by (rule check_reminders.raw_induct [where P = "\<lambda>_ _ _. False", rotated]) (rule step)
  then show ?thesis ..
qed

section \<open>The due window\<close>

text \<open>
  Once \<^verbatim>\<open>last_run\<close> is set, the instant compared with \<open>now\<close> is \<^verbatim>\<open>get_prev\<close>. Whenever that
  instant is not after \<open>now\<close>, the difference is not negative and the test of line 103 holds.
\<close>

lemma due_after_get_prev:
  assumes "lr \<noteq> None" and "get_prev c = Some p" and "p \<le> now"
  shows "next_run_of c lr = Some p \<and> due now lr p"
  using assms by (simp add: next_run_of_def due_def)

text \<open>
  C1. The claim, and \<^verbatim>\<open>test_check_reminders\<close>: a reminder on \<^verbatim>\<open>*/5 * * * *\<close> that fired at
  10:00 does not fire in the cycles at 10:01 and 10:04. The code, on the fixtures of that test:
  the cycle at 10:01 and the cycle at 10:04 each fetch the price, send the alert and write
  \<^verbatim>\<open>last_run\<close>.
\<close>

theorem cycle_fires_inside_the_period:
  "cycle_events (test_env price_ok False (\<lambda>_. test_time + minutes 1))
       (fresh_world [btc_row (Some test_time)]) =
     [GetPrice ''BTC'', SendMessage 123456789 (PriceAlert ''BTC'' 50000) Returned,
      UpdateLastRun ''BTC'' (test_time + minutes 1), Sleep 60] \<and>
   cycle_events (test_env price_ok False (\<lambda>_. test_time + minutes 4))
       (fresh_world [btc_row (Some test_time)]) =
     [GetPrice ''BTC'', SendMessage 123456789 (PriceAlert ''BTC'' 50000) Returned,
      UpdateLastRun ''BTC'' (test_time + minutes 4), Sleep 60]"
  by code_simp

section \<open>Order of the effects\<close>

text \<open>
  C2, as claimed: for each reminder decided due, the write of \<^verbatim>\<open>last_run\<close> precedes the
  delivery. On the fixtures of the test the cycle delivers first and writes afterwards.
\<close>

theorem write_follows_delivery_counterexample:
  "cycle_events (test_env price_ok False (\<lambda>_. test_time)) (fresh_world [btc_row None]) =
     [GetPrice ''BTC'', SendMessage 123456789 (PriceAlert ''BTC'' 50000) Returned,
      UpdateLastRun ''BTC'' test_time, Sleep 60] \<and>
   \<not> precedes (UpdateLastRun ''BTC'' test_time)
        (SendMessage 123456789 (PriceAlert ''BTC'' 50000) Returned)
        (cycle_events (test_env price_ok False (\<lambda>_. test_time)) (fresh_world [btc_row None]))"
  by code_simp

text \<open>
  C2, amended: for each reminder decided due, the calls are, in this order, the price fetch, the
  delivery of the alert or of the error text, and then the write of \<^verbatim>\<open>last_run\<close>; when the
  delivery raises, the error is printed and the write is not made.
\<close>

theorem due_reminder_effect_order:
  assumes "croniter e expr now = Some c" and "next_run_of c lr = Some n" and "due now lr n"
  shows "trace (process_reminder e now (sy, chat, expr, lr) w) = trace w @
     (if telegram_raises e chat (price_text e sy)
      then [GetPrice sy, SendMessage chat (price_text e sy) Raised, Print sy TelegramError]
      else [GetPrice sy, SendMessage chat (price_text e sy) Returned,
            UpdateLastRun sy (clock e (reads w))])"
  by (simp add: process_reminder_due [OF assms])

theorem due_reminder_effect_order_witness:
  "croniter (test_env price_ok False (\<lambda>_. test_time)) ''*/5 * * * *'' test_time =
     Some \<lparr>get_prev = Some (test_time - minutes 5), get_next = Some (test_time + minutes 5)\<rparr> \<and>
   next_run_of \<lparr>get_prev = Some (test_time - minutes 5), get_next = Some (test_time + minutes 5)\<rparr>
     (Some (test_time - minutes 5)) = Some (test_time - minutes 5) \<and>
   due test_time (Some (test_time - minutes 5)) (test_time - minutes 5) \<and>
   trace (process_reminder (test_env price_ok False (\<lambda>_. test_time)) test_time
            (''BTC'', 123456789, ''*/5 * * * *'', Some (test_time - minutes 5))
            (fresh_world [btc_row (Some (test_time - minutes 5))])) =
     [GetPrice ''BTC'', SendMessage 123456789 (PriceAlert ''BTC'' 50000) Returned,
      UpdateLastRun ''BTC'' test_time]"
proof -
  let ?e = "test_env price_ok False (\<lambda>_. test_time)"
  let ?c = "\<lparr>get_prev = Some (test_time - minutes 5), get_next = Some (test_time + minutes 5)\<rparr>"
  have h1: "croniter ?e ''*/5 * * * *'' test_time = Some ?c"
    by (simp add: test_env_def table_croniter_def cron_period_def test_time_def minutes_def)
  have h2: "next_run_of ?c (Some (test_time - minutes 5)) = Some (test_time - minutes 5)"
    by (simp add: next_run_of_def)
  have h3: "due test_time (Some (test_time - minutes 5)) (test_time - minutes 5)"
    by (simp add: due_def minutes_def)
  have "trace (process_reminder ?e test_time
            (''BTC'', 123456789, ''*/5 * * * *'', Some (test_time - minutes 5))
            (fresh_world [btc_row (Some (test_time - minutes 5))])) =
     [GetPrice ''BTC'', SendMessage 123456789 (PriceAlert ''BTC'' 50000) Returned,
      UpdateLastRun ''BTC'' test_time]"
    using due_reminder_effect_order [OF h1 h2 h3, of "''BTC''" 123456789
        "fresh_world [btc_row (Some (test_time - minutes 5))]"]
    by (simp add: test_env_def fresh_world_def price_text_def get_crypto_price_def price_ok_def)
  with h1 h2 h3 show ?thesis by blast
qed

section \<open>Firing in a cycle\<close>

text \<open>After the write, every row of the symbol carries the instant written.\<close>

lemma set_last_run_sets:
  "r \<in> set (set_last_run sy t rows) \<Longrightarrow> symbol r = sy \<Longrightarrow> last_run r = Some t"
proof (induction rows)
  case Nil
  then show ?case by (simp add: set_last_run_def)
next
  case (Cons a rows)
  show ?case
  proof (cases "r \<in> set (set_last_run sy t rows)")
    case True
    with Cons show ?thesis by simp
  next
    case False
    with Cons.prems have "r = (if symbol a = sy then a\<lparr>last_run := Some t\<rparr> else a)"
      by (simp add: set_last_run_def)
    with Cons.prems(2) show ?thesis
      by (cases "symbol a = sy") simp_all
  qed
qed

lemma mem_get_all_reminders:
  "r \<in> set (db w) \<Longrightarrow> (symbol r, chat_id r, cron_expr r, last_run r) \<in> set (get_all_reminders w)"
  by (auto simp add: get_all_reminders_def)

lemma cycle_events_raises:
  assumes row: "(sy, chat, expr, lr) \<in> set (get_all_reminders w)"
    and c: "croniter e expr (clock e (reads w)) = None \<or>
            (\<exists>c. croniter e expr (clock e (reads w)) = Some c \<and> next_run_of c lr = None)"
  shows "\<exists>ev1 ev2. cycle_events e w = ev1 @ Print sy CroniterError # ev2"
proof -
  obtain w1 ev1 ev2 where
    "cycle_events e w =
       ev1 @ drop (length (trace w1)) (trace (process_reminder e (clock e (reads w)) (sy, chat, expr, lr) w1)) @ ev2"
    using cycle_events_member [OF row] by blast
  then show ?thesis
    by (simp add: process_reminder_raises [OF c]) blast
qed

lemma cycle_events_last: "\<exists>ev. cycle_events e w = ev @ [Sleep 60]"
proof -
  let ?v = "w\<lparr>reads := Suc (reads w)\<rparr>"
  let ?w1 = "process_reminders e (clock e (reads w)) (get_all_reminders ?v) ?v"
  from process_reminders_trace [of e "clock e (reads w)" "get_all_reminders ?v" ?v]
  obtain ev where ev: "trace ?w1 = trace ?v @ ev" ..
  have "cycle_events e w = drop (length (trace w)) (trace ?w1 @ [Sleep 60])"
    by (simp add: cycle_events_def check_reminders_cycle_def Let_def)
  also have "\<dots> = ev @ [Sleep 60]"
    unfolding ev by simp
  finally show ?thesis ..
qed

text \<open>
  C3, as claimed: every reminder whose \<^verbatim>\<open>last_run\<close> is NULL is fired by the next cycle. A
  reminder registered on \<^verbatim>\<open>0 0 31 2 *\<close>, which the registration accepts, is never fired:
  line 101 calls \<^verbatim>\<open>get_next\<close> before the test of line 103, the call raises, and the cycle
  prints the error and leaves \<^verbatim>\<open>last_run\<close> NULL.
\<close>

theorem never_fired_not_fired_counterexample:
  "map (\<lambda>r. (symbol r, cron_expr r, last_run r))
       (db (snd (set_reminder feb31_env setreminder_feb31 (fresh_world [])))) =
     [(''BTC'', ''0 0 31 2 *'', None)] \<and>
   cycle_events feb31_env (snd (set_reminder feb31_env setreminder_feb31 (fresh_world []))) =
     [Print ''BTC'' CroniterError, Sleep 60] \<and>
   map last_run (db (check_reminders_cycle feb31_env
       (snd (set_reminder feb31_env setreminder_feb31 (fresh_world []))))) = [None]"
  by code_simp

text \<open>
  C3, amended: a reminder whose \<^verbatim>\<open>last_run\<close> is NULL, whose schedule the library accepts at
  the instant of the cycle and whose \<^verbatim>\<open>get_next\<close> returns, is decided due and fired by the
  cycle at any instant, whatever instants its schedule selects: the price is fetched and the
  alert or the error text is sent to its chat.
\<close>

theorem never_fired_reminder_fires:
  assumes "r \<in> set (db w)" and "last_run r = None"
    and "croniter e (cron_expr r) (clock e (reads w)) = Some c" and "get_next c = Some n"
  shows "due (clock e (reads w)) (last_run r) n \<and>
     GetPrice (symbol r) \<in> set (cycle_events e w) \<and>
     SendMessage (chat_id r) (price_text e (symbol r))
         (call_outcome e (chat_id r) (price_text e (symbol r))) \<in> set (cycle_events e w)"
proof -
  have d: "due (clock e (reads w)) (last_run r) n"
    using assms(2) by (simp add: due_def)
  have n: "next_run_of c (last_run r) = Some n"
    using assms(2,4) by (simp add: next_run_of_def)
  obtain ev1 ev2 ev3 where "cycle_events e w =
      ev1 @ [GetPrice (symbol r), SendMessage (chat_id r) (price_text e (symbol r))
               (call_outcome e (chat_id r) (price_text e (symbol r)))] @ ev2 # ev3"
    using cycle_events_due [OF mem_get_all_reminders [OF assms(1)] assms(3) n d] by blast
  with d show ?thesis by simp
qed

theorem never_fired_reminder_fires_witness:
  "btc_row None \<in> set (db (fresh_world [btc_row None])) \<and>
   last_run (btc_row None) = None \<and>
   croniter (test_env price_ok False (\<lambda>_. test_time + minutes 2)) (cron_expr (btc_row None))
       (clock (test_env price_ok False (\<lambda>_. test_time + minutes 2)) (reads (fresh_world [btc_row None]))) =
     Some \<lparr>get_prev = Some test_time, get_next = Some (test_time + minutes 5)\<rparr> \<and>
   get_next \<lparr>get_prev = Some test_time, get_next = Some (test_time + minutes 5)\<rparr> =
     Some (test_time + minutes 5) \<and>
   GetPrice ''BTC'' \<in> set (cycle_events (test_env price_ok False (\<lambda>_. test_time + minutes 2))
       (fresh_world [btc_row None])) \<and>
   SendMessage 123456789 (PriceAlert ''BTC'' 50000) Returned
     \<in> set (cycle_events (test_env price_ok False (\<lambda>_. test_time + minutes 2))
       (fresh_world [btc_row None]))"
proof -
  let ?e = "test_env price_ok False (\<lambda>_. test_time + minutes 2)"
  let ?w = "fresh_world [btc_row None]"
  let ?c = "\<lparr>get_prev = Some test_time, get_next = Some (test_time + minutes 5)\<rparr>"
  have h1: "btc_row None \<in> set (db ?w)"
    by (simp add: fresh_world_def)
  have h2: "last_run (btc_row None) = None"
    by (simp add: btc_row_def)
  have h3: "croniter ?e (cron_expr (btc_row None)) (clock ?e (reads ?w)) = Some ?c"
    by (simp add: test_env_def btc_row_def table_croniter_def cron_period_def test_time_def minutes_def)
  have h4: "get_next ?c = Some (test_time + minutes 5)"
    by simp
  have s: "symbol (btc_row None) = ''BTC''" "chat_id (btc_row None) = 123456789"
    by (simp_all add: btc_row_def)
  have p: "price_text ?e ''BTC'' = PriceAlert ''BTC'' 50000"
    by (simp add: price_text_def get_crypto_price_def price_ok_def test_env_def)
  have q: "call_outcome ?e 123456789 (PriceAlert ''BTC'' 50000) = Returned"
    by (simp add: call_outcome_def test_env_def)
  have "GetPrice ''BTC'' \<in> set (cycle_events ?e ?w) \<and>
        SendMessage 123456789 (PriceAlert ''BTC'' 50000) Returned \<in> set (cycle_events ?e ?w)"
    using never_fired_reminder_fires [OF h1 h2 h3 h4] by (simp only: s p q)
  with h1 h2 h3 h4 show ?thesis by (simp only: simp_thms)
qed

section \<open>Failures inside a cycle\<close>

text \<open>
  C4, as claimed: when the price fetch fails for a due reminder, the cycle delivers the error
  notification and still persists \<^verbatim>\<open>last_run\<close>. With a Telegram client that raises, the
  cycle on a due reminder whose price cannot be fetched leaves \<^verbatim>\<open>last_run\<close> NULL.
\<close>

theorem undelivered_error_counterexample:
  "map last_run (db (check_reminders_cycle (test_env price_down True (\<lambda>_. test_time))
       (fresh_world [btc_row None]))) = [None] \<and>
   cycle_events (test_env price_down True (\<lambda>_. test_time)) (fresh_world [btc_row None]) =
     [GetPrice ''BTC'', SendMessage 123456789 (PriceError ''BTC'') Raised,
      Print ''BTC'' TelegramError, Sleep 60]"
  by code_simp

text \<open>
  C4, amended: when the price fetch fails for a reminder decided due, the error text is sent to
  the chat of the reminder; if that call returns, \<^verbatim>\<open>last_run\<close> of the rows of the symbol is
  then set to the reading of the clock taken at the write; if it raises, the error is printed and
  the table is left as it was.
\<close>

theorem price_failure_handling:
  assumes "croniter e expr now = Some c" and "next_run_of c lr = Some n" and "due now lr n"
    and "get_crypto_price e sy = None"
  shows "process_reminder e now (sy, chat, expr, lr) w =
     (if telegram_raises e chat (PriceError sy)
      then w\<lparr>trace := trace w @
                [GetPrice sy, SendMessage chat (PriceError sy) Raised, Print sy TelegramError]\<rparr>
      else w\<lparr>db := set_last_run sy (clock e (reads w)) (db w),
             trace := trace w @
                [GetPrice sy, SendMessage chat (PriceError sy) Returned,
                 UpdateLastRun sy (clock e (reads w))],
             reads := Suc (reads w)\<rparr>)"
proof -
  have "price_text e sy = PriceError sy"
    using assms(4) by (simp add: price_text_def)
  with process_reminder_due [OF assms(1-3), of sy chat w] show ?thesis
    by simp
qed

theorem price_failure_handling_witness:
  "croniter (test_env price_down False (\<lambda>_. test_time)) ''*/5 * * * *'' test_time =
     Some \<lparr>get_prev = Some (test_time - minutes 5), get_next = Some (test_time + minutes 5)\<rparr> \<and>
   next_run_of \<lparr>get_prev = Some (test_time - minutes 5), get_next = Some (test_time + minutes 5)\<rparr>
     None = Some (test_time + minutes 5) \<and>
   due test_time None (test_time + minutes 5) \<and>
   get_crypto_price (test_env price_down False (\<lambda>_. test_time)) ''BTC'' = None \<and>
   process_reminder (test_env price_down False (\<lambda>_. test_time)) test_time
       (''BTC'', 123456789, ''*/5 * * * *'', None) (fresh_world [btc_row None]) =
     \<lparr>db = [btc_row (Some test_time)],
      trace = [GetPrice ''BTC'', SendMessage 123456789 (PriceError ''BTC'') Returned,
               UpdateLastRun ''BTC'' test_time],
      reads = 1\<rparr>"
proof -
  let ?e = "test_env price_down False (\<lambda>_. test_time)"
  let ?c = "\<lparr>get_prev = Some (test_time - minutes 5), get_next = Some (test_time + minutes 5)\<rparr>"
  have h1: "croniter ?e ''*/5 * * * *'' test_time = Some ?c"
    by (simp add: test_env_def table_croniter_def cron_period_def test_time_def minutes_def)
  have h2: "next_run_of ?c None = Some (test_time + minutes 5)"
    by (simp add: next_run_of_def)
  have h3: "due test_time None (test_time + minutes 5)"
    by (simp add: due_def)
  have h4: "get_crypto_price ?e ''BTC'' = None"
    by (simp add: get_crypto_price_def test_env_def price_down_def)
  have "process_reminder ?e test_time (''BTC'', 123456789, ''*/5 * * * *'', None)
          (fresh_world [btc_row None]) =
     \<lparr>db = [btc_row (Some test_time)],
      trace = [GetPrice ''BTC'', SendMessage 123456789 (PriceError ''BTC'') Returned,
               UpdateLastRun ''BTC'' test_time],
      reads = 1\<rparr>"
    using price_failure_handling [OF h1 h2 h3 h4, of 123456789 "fresh_world [btc_row None]"]
    by (simp add: test_env_def fresh_world_def set_last_run_def btc_row_def)
  with h1 h2 h3 h4 show ?thesis by (simp only: simp_thms)
qed

text \<open>
  C5. In one cycle, whatever the other rows are and whatever they raise: a row whose schedule
  the library rejects, or whose iterator raises, has its error printed; a row that is due has
  its price fetched and its text sent; and the cycle reaches its sleep, so no error leaves
  it.
\<close>

theorem cycle_isolates_reminders:
  assumes "(sy, chat, expr, lr) \<in> set (get_all_reminders w)"
  shows "(croniter e expr (clock e (reads w)) = None \<longrightarrow>
            Print sy CroniterError \<in> set (cycle_events e w)) \<and>
         (\<forall>c. croniter e expr (clock e (reads w)) = Some c \<and> next_run_of c lr = None \<longrightarrow>
            Print sy CroniterError \<in> set (cycle_events e w)) \<and>
         (\<forall>c n. croniter e expr (clock e (reads w)) = Some c \<and> next_run_of c lr = Some n \<and>
                due (clock e (reads w)) lr n \<longrightarrow>
            GetPrice sy \<in> set (cycle_events e w) \<and>
            SendMessage chat (price_text e sy) (call_outcome e chat (price_text e sy))
              \<in> set (cycle_events e w)) \<and>
         (\<exists>ev. cycle_events e w = ev @ [Sleep 60])"
proof (intro conjI impI allI)
  assume "croniter e expr (clock e (reads w)) = None"
  then obtain ev1 ev2 where "cycle_events e w = ev1 @ Print sy CroniterError # ev2"
    using cycle_events_raises [OF assms, of e] by blast
  then show "Print sy CroniterError \<in> set (cycle_events e w)" by simp
next
  fix c
  assume "croniter e expr (clock e (reads w)) = Some c \<and> next_run_of c lr = None"
  then obtain ev1 ev2 where "cycle_events e w = ev1 @ Print sy CroniterError # ev2"
    using cycle_events_raises [OF assms, of e] by blast
  then show "Print sy CroniterError \<in> set (cycle_events e w)" by simp
next
  fix c n
  assume a: "croniter e expr (clock e (reads w)) = Some c \<and> next_run_of c lr = Some n \<and>
             due (clock e (reads w)) lr n"
  then obtain ev1 ev2 ev3 where ev: "cycle_events e w =
      ev1 @ [GetPrice sy, SendMessage chat (price_text e sy) (call_outcome e chat (price_text e sy))]
        @ ev2 # ev3"
    using cycle_events_due [OF assms, of e c n] by blast
  show "GetPrice sy \<in> set (cycle_events e w)"
    by (simp add: ev)
  show "SendMessage chat (price_text e sy) (call_outcome e chat (price_text e sy))
          \<in> set (cycle_events e w)"
    by (simp add: ev)
next
  show "\<exists>ev. cycle_events e w = ev @ [Sleep 60]"
    by (rule cycle_events_last)
qed

theorem cycle_isolates_reminders_witness:
  "(''BTC'', 123456789, ''*/5 * * * *'', None)
     \<in> set (get_all_reminders (fresh_world [eth_row, btc_row None])) \<and>
   (''ETH'', 42, ''every now and then'', None)
     \<in> set (get_all_reminders (fresh_world [eth_row, btc_row None])) \<and>
   croniter (test_env price_ok False (\<lambda>_. test_time)) ''every now and then''
     (clock (test_env price_ok False (\<lambda>_. test_time)) (reads (fresh_world [eth_row, btc_row None])))
     = None \<and>
   croniter (test_env price_ok False (\<lambda>_. test_time)) ''*/5 * * * *''
     (clock (test_env price_ok False (\<lambda>_. test_time)) (reads (fresh_world [eth_row, btc_row None])))
     = Some \<lparr>get_prev = Some (test_time - minutes 5), get_next = Some (test_time + minutes 5)\<rparr> \<and>
   next_run_of \<lparr>get_prev = Some (test_time - minutes 5), get_next = Some (test_time + minutes 5)\<rparr>
     None = Some (test_time + minutes 5) \<and>
   due (clock (test_env price_ok False (\<lambda>_. test_time)) (reads (fresh_world [eth_row, btc_row None])))
     None (test_time + minutes 5) \<and>
   Print ''ETH'' CroniterError
     \<in> set (cycle_events (test_env price_ok False (\<lambda>_. test_time)) (fresh_world [eth_row, btc_row None])) \<and>
   GetPrice ''BTC''
     \<in> set (cycle_events (test_env price_ok False (\<lambda>_. test_time)) (fresh_world [eth_row, btc_row None])) \<and>
   SendMessage 123456789 (PriceAlert ''BTC'' 50000) Returned
     \<in> set (cycle_events (test_env price_ok False (\<lambda>_. test_time)) (fresh_world [eth_row, btc_row None]))"
proof -
  let ?e = "test_env price_ok False (\<lambda>_. test_time)"
  let ?w = "fresh_world [eth_row, btc_row None]"
  let ?c = "\<lparr>get_prev = Some (test_time - minutes 5), get_next = Some (test_time + minutes 5)\<rparr>"
  have r1: "(''BTC'', 123456789, ''*/5 * * * *'', None) \<in> set (get_all_reminders ?w)"
    by (simp add: get_all_reminders_def fresh_world_def btc_row_def eth_row_def)
  have r2: "(''ETH'', 42, ''every now and then'', None) \<in> set (get_all_reminders ?w)"
    by (simp add: get_all_reminders_def fresh_world_def btc_row_def eth_row_def)
  have h0: "croniter ?e ''every now and then'' (clock ?e (reads ?w)) = None"
    by (simp add: test_env_def table_croniter_def cron_period_def)
  have h1: "croniter ?e ''*/5 * * * *'' (clock ?e (reads ?w)) = Some ?c"
    by (simp add: test_env_def table_croniter_def cron_period_def test_time_def minutes_def)
  have h2: "next_run_of ?c None = Some (test_time + minutes 5)"
    by (simp add: next_run_of_def)
  have h3: "due (clock ?e (reads ?w)) None (test_time + minutes 5)"
    by (simp add: due_def)
  have p: "price_text ?e ''BTC'' = PriceAlert ''BTC'' 50000"
    by (simp add: price_text_def get_crypto_price_def price_ok_def test_env_def)
  have q: "call_outcome ?e 123456789 (PriceAlert ''BTC'' 50000) = Returned"
    by (simp add: call_outcome_def test_env_def)
  have e1: "Print ''ETH'' CroniterError \<in> set (cycle_events ?e ?w)"
    using cycle_isolates_reminders [OF r2, of ?e] h0 by (elim conjE impE)
  have "croniter ?e ''*/5 * * * *'' (clock ?e (reads ?w)) = Some ?c \<and>
        next_run_of ?c None = Some (test_time + minutes 5) \<and>
        due (clock ?e (reads ?w)) None (test_time + minutes 5) \<longrightarrow>
        GetPrice ''BTC'' \<in> set (cycle_events ?e ?w) \<and>
        SendMessage 123456789 (price_text ?e ''BTC'') (call_outcome ?e 123456789 (price_text ?e ''BTC''))
          \<in> set (cycle_events ?e ?w)"
    using cycle_isolates_reminders [OF r1, of ?e] by (elim conjE allE)
  with h1 h2 h3 have "GetPrice ''BTC'' \<in> set (cycle_events ?e ?w) \<and>
        SendMessage 123456789 (PriceAlert ''BTC'' 50000) Returned \<in> set (cycle_events ?e ?w)"
    by (simp only: p q simp_thms)
  with r1 r2 h0 h1 h2 h3 e1 show ?thesis by (simp only: simp_thms)
qed

section \<open>Registration and the store\<close>

text \<open>
  \<^verbatim>\<open>split(None, 2)\<close> never gives more than three parts: what follows the symbol, blanks
  included, is the schedule. A wrong number of arguments is therefore fewer than three parts.
\<close>

lemma split_whitespace_length: "length (split_whitespace e n s) \<le> Suc n"
  by (induction n arbitrary: s) (simp_all add: Let_def)

lemma reply_to_db: "db (snd (reply_to e m txt w)) = db w"
  by (simp add: reply_to_def)


lemma set_reminder_few_args:
  assumes "length (split_whitespace e 2 (msg_text m)) \<noteq> 3"
  shows "set_reminder e m w = reply_to e m (UsageError ''Invalid number of arguments'') w"
  using assms by (simp add: set_reminder_def set_reminder_try_def Let_def)

lemma set_reminder_bad_cron:
  assumes "split_whitespace e 2 (msg_text m) = [cmd, a, expr]" and "\<not> is_valid e expr"
  shows "set_reminder e m w = reply_to e m (UsageError ''Invalid cron expression'') w"
  using assms by (simp add: set_reminder_def set_reminder_try_def Let_def)

lemma set_reminder_valid_db:
  assumes "split_whitespace e 2 (msg_text m) = [cmd, a, expr]" and "is_valid e expr"
  shows "db (snd (set_reminder e m w)) = db (replace_into e (upper e a) (msg_chat_id m) expr w)"
  using assms
  by (simp add: set_reminder_def set_reminder_try_def Let_def reply_to_def
      split: option.split)

lemma distinct_symbol_count:
  "distinct (map symbol rows) \<Longrightarrow> length (filter (\<lambda>r. symbol r = s) rows) \<le> 1"
proof (induction rows)
  case Nil
  then show ?case by simp
next
  case (Cons a rows)
  show ?case
  proof (cases "symbol a = s")
    case True
    with Cons.prems have "\<forall>r \<in> set rows. symbol r \<noteq> s"
      by (simp add: image_iff) metis
    then have "filter (\<lambda>r. symbol r = s) rows = []"
      by (simp add: filter_empty_conv)
    with True show ?thesis by simp
  next
    case False
    with Cons show ?thesis by simp
  qed
qed

lemma replace_into_db:
  "db (replace_into e sy chat expr w) =
     filter (\<lambda>r. symbol r \<noteq> sy) (db w) @
       [\<lparr>symbol = sy, chat_id = chat, cron_expr = expr, last_run = None,
         created_at = current_timestamp (clock e (reads w))\<rparr>]"
  by (simp add: replace_into_def)

lemma replace_into_distinct:
  assumes "distinct (map symbol (db w))"
  shows "distinct (map symbol (db (replace_into e sy chat expr w)))"
proof -
  have "distinct (map symbol (filter (\<lambda>r. symbol r \<noteq> sy) (db w)))"
    using assms by (rule distinct_map_filter)
  moreover have "sy \<notin> symbol ` set (filter (\<lambda>r. symbol r \<noteq> sy) (db w))"
    by auto
  ultimately show ?thesis
    by (simp add: replace_into_db)
qed

lemma replace_into_row:
  "filter (\<lambda>r. symbol r = sy) (db (replace_into e sy chat expr w)) =
     [\<lparr>symbol = sy, chat_id = chat, cron_expr = expr, last_run = None,
       created_at = current_timestamp (clock e (reads w))\<rparr>]"
proof -
  have "filter (\<lambda>r. symbol r = sy) (filter (\<lambda>r. symbol r \<noteq> sy) (db w)) = []"
    by (simp add: filter_empty_conv)
  then show ?thesis
    by (simp add: replace_into_db)
qed

lemma replace_into_others:
  "filter (\<lambda>r. symbol r \<noteq> sy) (db (replace_into e sy chat expr w)) =
     filter (\<lambda>r. symbol r \<noteq> sy) (db w)"
  by (simp add: replace_into_db)

lemma set_reminder_db_cases:
  "db (snd (set_reminder e m w)) = db w \<or>
   (\<exists>cmd a expr. split_whitespace e 2 (msg_text m) = [cmd, a, expr] \<and> is_valid e expr \<and>
      db (snd (set_reminder e m w)) = db (replace_into e (upper e a) (msg_chat_id m) expr w))"
proof (cases "length (split_whitespace e 2 (msg_text m)) = 3")
  case False
  then show ?thesis by (simp add: set_reminder_few_args reply_to_db)
next
  case True
  then obtain cmd a expr where args: "split_whitespace e 2 (msg_text m) = [cmd, a, expr]"
    by (auto simp add: length_Suc_conv numeral_3_eq_3)
  show ?thesis
  proof (cases "is_valid e expr")
    case False
    with args show ?thesis by (simp add: set_reminder_bad_cron reply_to_db)
  next
    case True
    with args show ?thesis using set_reminder_valid_db [OF args True] by blast
  qed
qed

text \<open>
  C7. On a table whose symbols are pairwise distinct, as the primary key has it, after any
  \<^verbatim>\<open>/setreminder\<close> message, accepted or not, the symbols are still pairwise distinct and every
  symbol has at most one row; after an accepted one, the single row of the upper-cased symbol
  carries the chat of the sender and the new schedule, whatever row the symbol had before.
\<close>

theorem set_reminder_upsert:
  assumes "distinct (map symbol (db w))"
  shows "distinct (map symbol (db (snd (set_reminder e m w)))) \<and>
     (\<forall>s. length (filter (\<lambda>r. symbol r = s) (db (snd (set_reminder e m w)))) \<le> 1) \<and>
     (\<forall>cmd a expr. split_whitespace e 2 (msg_text m) = [cmd, a, expr] \<and> is_valid e expr \<longrightarrow>
        filter (\<lambda>r. symbol r = upper e a) (db (snd (set_reminder e m w))) =
          [\<lparr>symbol = upper e a, chat_id = msg_chat_id m, cron_expr = expr, last_run = None,
            created_at = current_timestamp (clock e (reads w))\<rparr>])"
proof -
  have d: "distinct (map symbol (db (snd (set_reminder e m w))))"
    using set_reminder_db_cases [of e m w] assms replace_into_distinct [OF assms]
    by (elim disjE exE conjE) simp_all
  have "filter (\<lambda>r. symbol r = upper e a) (db (snd (set_reminder e m w))) =
          [\<lparr>symbol = upper e a, chat_id = msg_chat_id m, cron_expr = expr, last_run = None,
            created_at = current_timestamp (clock e (reads w))\<rparr>]"
    if "split_whitespace e 2 (msg_text m) = [cmd, a, expr] \<and> is_valid e expr" for cmd a expr
    using that by (simp add: set_reminder_valid_db replace_into_row)
  moreover have "\<forall>s. length (filter (\<lambda>r. symbol r = s) (db (snd (set_reminder e m w)))) \<le> 1"
    using distinct_symbol_count [OF d] by blast
  ultimately show ?thesis
    using d by blast
qed

theorem set_reminder_upsert_witness:
  "distinct (map symbol (db (fresh_world [eth_owned_btc_row]))) \<and>
   split_whitespace (test_env price_ok False ticking) 2 (msg_text setreminder_btc) = [''/setreminder'', ''btc'', ''*/30 * * * *''] \<and>
   is_valid (test_env price_ok False ticking) ''*/30 * * * *'' \<and>
   distinct (map symbol (db (snd (set_reminder (test_env price_ok False ticking) setreminder_btc
       (fresh_world [eth_owned_btc_row]))))) \<and>
   filter (\<lambda>r. symbol r = ''BTC'')
       (db (snd (set_reminder (test_env price_ok False ticking) setreminder_btc
          (fresh_world [eth_owned_btc_row])))) =
     [\<lparr>symbol = ''BTC'', chat_id = 123456789, cron_expr = ''*/30 * * * *'', last_run = None,
       created_at = test_time\<rparr>]"
proof -
  let ?e = "test_env price_ok False ticking"
  let ?w = "fresh_world [eth_owned_btc_row]"
  have h1: "distinct (map symbol (db ?w))"
    by (simp add: fresh_world_def)
  have h2: "split_whitespace ?e 2 (msg_text setreminder_btc) = [''/setreminder'', ''btc'', ''*/30 * * * *'']"
    by (simp add: setreminder_btc_def test_env_def latin1_isspace_def numeral_2_eq_2)
  have h3: "is_valid ?e ''*/30 * * * *''"
    by (simp add: test_env_def cron_period_def)
  have u: "upper ?e ''btc'' = ''BTC''"
    by code_simp
  have c: "current_timestamp (clock ?e (reads ?w)) = test_time"
    by (simp add: current_timestamp_def test_env_def fresh_world_def ticking_def test_time_def minutes_def)
  have m: "msg_chat_id setreminder_btc = 123456789"
    by (simp add: setreminder_btc_def)
  note t = set_reminder_upsert [OF h1, of ?e setreminder_btc]
  from t have d: "distinct (map symbol (db (snd (set_reminder ?e setreminder_btc ?w))))"
    by (elim conjE)
  from t have "split_whitespace ?e 2 (msg_text setreminder_btc) = [''/setreminder'', ''btc'', ''*/30 * * * *''] \<and>
        is_valid ?e ''*/30 * * * *'' \<longrightarrow>
      filter (\<lambda>r. symbol r = upper ?e ''btc'') (db (snd (set_reminder ?e setreminder_btc ?w))) =
        [\<lparr>symbol = upper ?e ''btc'', chat_id = msg_chat_id setreminder_btc, cron_expr = ''*/30 * * * *'',
          last_run = None, created_at = current_timestamp (clock ?e (reads ?w))\<rparr>]"
    by (elim conjE allE)
  with h2 h3 have "filter (\<lambda>r. symbol r = ''BTC'') (db (snd (set_reminder ?e setreminder_btc ?w))) =
        [\<lparr>symbol = ''BTC'', chat_id = 123456789, cron_expr = ''*/30 * * * *'',
          last_run = None, created_at = test_time\<rparr>]"
    by (simp only: u c m simp_thms)
  with h1 h2 h3 d show ?thesis by (simp only: simp_thms)
qed



text \<open>
  Beyond ASCII, with the tables of the code points below 256: a no-break space separates the
  symbol from the schedule, and the symbol is stored with its accented letter in upper case.
\<close>

lemma set_reminder_beyond_ascii:
  "map (\<lambda>r. (symbol r, cron_expr r))
       (db (snd (set_reminder (test_env price_ok False ticking)
          \<lparr>msg_chat_id = 7,
           msg_text = ''/setreminder '' @ [CHR 0xE9] @ ''th'' @ [CHR 0xA0] @ ''*/5 * * * *''\<rparr>
          (fresh_world [])))) =
     [(CHR 0xC9 # ''TH'', ''*/5 * * * *'')]"
  by code_simp

lemma set_last_run_keys:
  "map (\<lambda>r. (symbol r, created_at r)) (set_last_run sy t rows) =
     map (\<lambda>r. (symbol r, created_at r)) rows"
  by (induction rows) (simp_all add: set_last_run_def)

lemma update_reminder_last_run_keys:
  "map (\<lambda>r. (symbol r, created_at r)) (db (update_reminder_last_run e sy w)) =
     map (\<lambda>r. (symbol r, created_at r)) (db w)"
  by (simp add: update_reminder_last_run_def Let_def set_last_run_keys)

lemma process_reminder_keys:
  "map (\<lambda>r. (symbol r, created_at r)) (db (process_reminder e now row w)) =
     map (\<lambda>r. (symbol r, created_at r)) (db w)"
proof -
  obtain sy chat expr lr where row: "row = (sy, chat, expr, lr)"
    by (cases row) auto
  show ?thesis
  proof (cases "croniter e expr now")
    case None
    then show ?thesis by (simp add: row process_reminder_raises)
  next
    case (Some c)
    show ?thesis
    proof (cases "next_run_of c lr")
      case None
      with Some show ?thesis by (simp add: row process_reminder_raises)
    next
      case (Some n)
      with \<open>croniter e expr now = Some c\<close> show ?thesis
        by (cases "due now lr n")
          (simp_all add: row process_reminder_due process_reminder_not_due set_last_run_keys)
    qed
  qed
qed

lemma process_reminders_keys:
  "map (\<lambda>r. (symbol r, created_at r)) (db (process_reminders e now rows w)) =
     map (\<lambda>r. (symbol r, created_at r)) (db w)"
  by (induction rows arbitrary: w) (simp_all add: process_reminder_keys)

lemma check_reminders_cycle_keys:
  "map (\<lambda>r. (symbol r, created_at r)) (db (check_reminders_cycle e w)) =
     map (\<lambda>r. (symbol r, created_at r)) (db w)"
  by (simp add: check_reminders_cycle_def Let_def process_reminders_keys)

text \<open>
  C9, as claimed: \<^verbatim>\<open>created_at\<close> of a row is never changed after creation, registering the
  symbol again included. Registering BTC twice, one minute apart on the clock, leaves one row for
  BTC whose \<^verbatim>\<open>created_at\<close> is the time of the second registration.
\<close>

theorem created_at_reset_counterexample:
  "map created_at (db (snd (set_reminder (test_env price_ok False ticking) setreminder_btc
       (fresh_world [])))) = [test_time] \<and>
   map created_at (db (snd (set_reminder (test_env price_ok False ticking) setreminder_btc
       (snd (set_reminder (test_env price_ok False ticking) setreminder_btc (fresh_world []))))))
     = [test_time + minutes 1] \<and>
   map symbol (db (snd (set_reminder (test_env price_ok False ticking) setreminder_btc
       (snd (set_reminder (test_env price_ok False ticking) setreminder_btc (fresh_world []))))))
     = [''BTC'']"
  by code_simp

text \<open>
  C9, amended: \<^verbatim>\<open>created_at\<close> is set by the store when the row is written. The write of
  \<^verbatim>\<open>last_run\<close> and a whole cycle of the checker leave the symbol and \<^verbatim>\<open>created_at\<close> of
  every row unchanged. An accepted registration replaces the row of its symbol, so that row's
  \<^verbatim>\<open>created_at\<close> becomes the time of this registration, and leaves all other rows as they
  were.
\<close>

theorem created_at_frame:
  "map (\<lambda>r. (symbol r, created_at r)) (db (update_reminder_last_run e sy w)) =
     map (\<lambda>r. (symbol r, created_at r)) (db w) \<and>
   map (\<lambda>r. (symbol r, created_at r)) (db (check_reminders_cycle e w)) =
     map (\<lambda>r. (symbol r, created_at r)) (db w) \<and>
   (\<forall>cmd a expr. split_whitespace e 2 (msg_text m) = [cmd, a, expr] \<and> is_valid e expr \<longrightarrow>
      map created_at (filter (\<lambda>r. symbol r = upper e a) (db (snd (set_reminder e m w)))) =
        [current_timestamp (clock e (reads w))] \<and>
      filter (\<lambda>r. symbol r \<noteq> upper e a) (db (snd (set_reminder e m w))) =
        filter (\<lambda>r. symbol r \<noteq> upper e a) (db w))"
proof (intro conjI impI allI)
  show "map (\<lambda>r. (symbol r, created_at r)) (db (update_reminder_last_run e sy w)) =
     map (\<lambda>r. (symbol r, created_at r)) (db w)"
    by (rule update_reminder_last_run_keys)
  show "map (\<lambda>r. (symbol r, created_at r)) (db (check_reminders_cycle e w)) =
     map (\<lambda>r. (symbol r, created_at r)) (db w)"
    by (rule check_reminders_cycle_keys)
next
  fix cmd a expr
  assume "split_whitespace e 2 (msg_text m) = [cmd, a, expr] \<and> is_valid e expr"
  then have a: "split_whitespace e 2 (msg_text m) = [cmd, a, expr]" and b: "is_valid e expr"
    by simp_all
  show "map created_at (filter (\<lambda>r. symbol r = upper e a) (db (snd (set_reminder e m w)))) =
        [current_timestamp (clock e (reads w))]"
    by (simp add: set_reminder_valid_db [OF a b] replace_into_row)
  show "filter (\<lambda>r. symbol r \<noteq> upper e a) (db (snd (set_reminder e m w))) =
        filter (\<lambda>r. symbol r \<noteq> upper e a) (db w)"
    by (simp only: set_reminder_valid_db [OF a b] replace_into_others)
qed

theorem created_at_frame_witness:
  "split_whitespace (test_env price_ok False ticking) 2 (msg_text setreminder_btc) = [''/setreminder'', ''btc'', ''*/30 * * * *''] \<and>
   is_valid (test_env price_ok False ticking) ''*/30 * * * *'' \<and>
   map created_at (db (fresh_world [eth_owned_btc_row])) = [test_time - minutes 90] \<and>
   map created_at (filter (\<lambda>r. symbol r = ''BTC'')
       (db (snd (set_reminder (test_env price_ok False ticking) setreminder_btc
          (fresh_world [eth_owned_btc_row]))))) = [test_time] \<and>
   map (\<lambda>r. (symbol r, created_at r))
       (db (check_reminders_cycle (test_env price_ok False ticking) (fresh_world [eth_owned_btc_row])))
     = [(''BTC'', test_time - minutes 90)]"
proof -
  let ?e = "test_env price_ok False ticking"
  let ?w = "fresh_world [eth_owned_btc_row]"
  have h2: "split_whitespace ?e 2 (msg_text setreminder_btc) = [''/setreminder'', ''btc'', ''*/30 * * * *'']"
    by (simp add: setreminder_btc_def test_env_def latin1_isspace_def numeral_2_eq_2)
  have h3: "is_valid ?e ''*/30 * * * *''"
    by (simp add: test_env_def cron_period_def)
  have u: "upper ?e ''btc'' = ''BTC''"
    by code_simp
  have c: "current_timestamp (clock ?e (reads ?w)) = test_time"
    by (simp add: current_timestamp_def test_env_def fresh_world_def ticking_def test_time_def minutes_def)
  have b: "map created_at (db ?w) = [test_time - minutes 90]"
    by (simp add: fresh_world_def eth_owned_btc_row_def)
  have k: "map (\<lambda>r. (symbol r, created_at r)) (db ?w) = [(''BTC'', test_time - minutes 90)]"
    by (simp add: fresh_world_def eth_owned_btc_row_def)
  note t = created_at_frame [of ?e "''BTC''" ?w setreminder_btc]
  from t have c2: "map (\<lambda>r. (symbol r, created_at r)) (db (check_reminders_cycle ?e ?w)) =
      [(''BTC'', test_time - minutes 90)]"
    by (simp only: k)
  from t have "split_whitespace ?e 2 (msg_text setreminder_btc) = [''/setreminder'', ''btc'', ''*/30 * * * *''] \<and>
        is_valid ?e ''*/30 * * * *'' \<longrightarrow>
      map created_at (filter (\<lambda>r. symbol r = upper ?e ''btc'') (db (snd (set_reminder ?e setreminder_btc ?w)))) =
        [current_timestamp (clock ?e (reads ?w))] \<and>
      filter (\<lambda>r. symbol r \<noteq> upper ?e ''btc'') (db (snd (set_reminder ?e setreminder_btc ?w))) =
        filter (\<lambda>r. symbol r \<noteq> upper ?e ''btc'') (db ?w)"
    by (elim conjE allE)
  with h2 h3 have c3: "map created_at (filter (\<lambda>r. symbol r = ''BTC'')
       (db (snd (set_reminder ?e setreminder_btc ?w)))) = [test_time]"
    by (simp only: u c simp_thms)
  from h2 h3 b c3 c2 show ?thesis by (simp only: simp_thms)
qed

end
